theory Spec2Isabelle
  imports Main "HOL-Library.Word"
begin

section \<open>View-change block processing of a Zilliqa node\<close>

text \<open>
  A shallow embedding of \<^verbatim>\<open>src/libNode/ViewChangeBlockProcessing.cpp\<close>:
  \<^verbatim>\<open>Node::UpdateDSCommiteeCompositionAfterVC\<close>, \<^verbatim>\<open>Node::VerifyVCBlockCoSignature\<close>
  and \<^verbatim>\<open>Node::ProcessVCBlock\<close>. Public keys, peers and signatures are opaque
  values compared by equality only, so they are type parameters \<open>'k\<close>, \<open>'p\<close>
  and \<open>'s\<close>. Logging has no effect on the result and is left out. The mutex of
  the committee is not modelled: the embedding is sequential.
\<close>

subsection \<open>Data\<close>

type_synonym byte = "8 word"

text \<open>
  The fields of \<^verbatim>\<open>VCBlockHeader\<close> are the ones read through its getters in the
  source file (\<^verbatim>\<open>GetViewChangeEpochNo\<close>, \<^verbatim>\<open>GetViewChangeCounter\<close>, ...). The
  view-change counter is assigned to an \<^verbatim>\<open>unsigned int\<close>, a 32-bit word. Epoch
  numbers are only compared for equality of their values and are natural numbers.
\<close>

record ('k, 'p) VCBlockHeader =
  VieWChangeDSEpochNo :: nat
  ViewChangeEpochNo :: nat
  ViewChangeState :: byte
  CandidateLeaderIndex :: "32 word"
  CandidateLeaderNetworkInfo :: 'p
  CandidateLeaderPubKey :: 'k
  ViewChangeCounter :: "32 word"
  TimeStamp :: nat

record ('k, 'p, 's) VCBlock =
  Header :: "('k, 'p) VCBlockHeader"
  CS1 :: 's
  B1 :: "bool list"
  CS2 :: 's
  B2 :: "bool list"

text \<open>
  \<^verbatim>\<open>m_mediator.m_DSCommittee\<close> is a deque of pairs (public key, peer); the front
  is the current leader. \<^verbatim>\<open>m_mediator.m_currentEpochNum\<close> is the local epoch.
\<close>

type_synonym ('k, 'p) committee = "('k \<times> 'p) list"

record ('k, 'p) mediator =
  m_currentEpochNum :: nat
  m_DSCommittee :: "('k, 'p) committee"

text \<open>
  The functions and constants the source file calls but does not define are
  parameters of the embedding: the quorum formula
  \<^verbatim>\<open>ConsensusCommon::NumForConsensus\<close>, \<^verbatim>\<open>MultiSig::AggregatePubKeys\<close>
  (a null pointer is \<open>None\<close>), \<^verbatim>\<open>Schnorr::Verify\<close> on the whole message,
  \<^verbatim>\<open>Messenger::GetNodeVCBlock\<close> (a failed decoding is \<open>None\<close>), the bytes
  that \<^verbatim>\<open>VCBlockHeader::Serialize\<close> and \<^verbatim>\<open>Signature::Serialize\<close> produce, and
  the constants \<^verbatim>\<open>VCBlockHeader::SIZE\<close> and \<^verbatim>\<open>BLOCK_SIG_SIZE\<close>.
\<close>

record ('k, 'p, 's) collaborators =
  NumForConsensus :: "nat \<Rightarrow> nat"
  AggregatePubKeys :: "'k list \<Rightarrow> 'k option"
  SchnorrVerify :: "byte list \<Rightarrow> 's \<Rightarrow> 'k \<Rightarrow> bool"
  GetNodeVCBlock :: "byte list \<Rightarrow> nat \<Rightarrow> ('k, 'p, 's) VCBlock option"
  SerializeHeader :: "('k, 'p) VCBlockHeader \<Rightarrow> byte list"
  SerializeSignature :: "'s \<Rightarrow> byte list"
  VCBlockHeader_SIZE :: nat
  BLOCK_SIG_SIZE :: nat

text \<open>
  What a call can do besides returning a boolean: \<^verbatim>\<open>at\<close> on a deque or vector
  throws \<^verbatim>\<open>std::out_of_range\<close>; the remainder by an empty committee's size and
  \<^verbatim>\<open>front\<close> on an empty deque are undefined behaviour.
\<close>

datatype outcome = Returned bool | Threw_out_of_range | Undefined_behaviour

definition checked_at :: "'a list \<Rightarrow> nat \<Rightarrow> 'a option" where
  "checked_at xs i = (if i < length xs then Some (xs ! i) else None)"

subsection \<open>Leader rotation\<close>

text \<open>
  \<^verbatim>\<open>emplace_back(front()); pop_front();\<close> on the committee. On an empty deque
  \<^verbatim>\<open>front\<close> is undefined: \<open>None\<close>.
\<close>

fun UpdateDSCommiteeCompositionAfterVC :: "('k, 'p) committee \<Rightarrow> ('k, 'p) committee option" where
  "UpdateDSCommiteeCompositionAfterVC [] = None"
| "UpdateDSCommiteeCompositionAfterVC (front # rest) = Some (rest @ [front])"

text \<open>
  \<^verbatim>\<open>for (unsigned int x = 0; x < newCandidateLeader; x++) UpdateDSCommiteeCompositionAfterVC();\<close>
  The argument counts the iterations still to run.
\<close>

fun rotation_loop :: "nat \<Rightarrow> ('k, 'p) committee \<Rightarrow> ('k, 'p) committee option" where
  "rotation_loop 0 c = Some c"
| "rotation_loop (Suc n) c =
     (case UpdateDSCommiteeCompositionAfterVC c of
        None \<Rightarrow> None
      | Some c' \<Rightarrow> rotation_loop n c')"

subsection \<open>The signed message\<close>

text \<open>
  Modelled from the spec: the bodies of \<^verbatim>\<open>Serialize(dst, offset)\<close> and of
  \<^verbatim>\<open>BitVector::SetBitVector(dst, offset, value)\<close> are not in the source file. The
  spec has the components written "at fixed byte offsets" into one message: a
  write at an offset grows the destination with zero bytes up to the end of the
  written region and replaces the bytes of that region.
\<close>

definition write_at :: "byte list \<Rightarrow> nat \<Rightarrow> byte list \<Rightarrow> byte list" where
  "write_at dst offset bytes =
     take offset (dst @ replicate (offset - length dst) 0) @ bytes
       @ drop (offset + length bytes) dst"

text \<open>
  Modelled from the spec: the packing of \<^verbatim>\<open>BitVector::SetBitVector\<close>, which is
  not in the source file. The spec has the bitmap "packed as a fixed-width
  bit-vector, not the raw boolean sequence" ("bit-vector packing, not
  one-byte-per-bit"): up to eight booleans go into one byte, the first one
  into the bit of weight \<open>2 ^ w\<close>, the next ones into the lower bits.
\<close>

fun byte_of_bits :: "bool list \<Rightarrow> nat \<Rightarrow> byte" where
  "byte_of_bits [] w = 0"
| "byte_of_bits (b # bs) w = (if b then 2 ^ w else 0) + byte_of_bits bs (w - 1)"

text \<open>
  Modelled from the spec: the bytes of a packed bitmap (\<^verbatim>\<open>BitVector\<close> is not in
  the source file), one byte for each group of eight booleans, the last group
  padded with unset bits.
\<close>

fun BitVector_bytes :: "bool list \<Rightarrow> byte list" where
  "BitVector_bytes bs =
     (if bs = [] then [] else byte_of_bits (take 8 bs) 7 # BitVector_bytes (drop 8 bs))"

text \<open>
  Modelled from the spec: \<^verbatim>\<open>BitVector::SetBitVector(dst, offset, value)\<close>, not in
  the source file, writes the packed bitmap into the message at the offset.
\<close>

definition SetBitVector :: "byte list \<Rightarrow> nat \<Rightarrow> bool list \<Rightarrow> byte list" where
  "SetBitVector dst offset v = write_at dst offset (BitVector_bytes v)"

text \<open>
  Lines 102 to 106: the message starts empty; the header is serialized at
  offset 0, CS1 at \<^verbatim>\<open>VCBlockHeader::SIZE\<close>, and B1 is set as a bit vector at
  \<^verbatim>\<open>VCBlockHeader::SIZE + BLOCK_SIG_SIZE\<close>.
\<close>

definition cosig_message :: "('k, 'p, 's) collaborators \<Rightarrow> ('k, 'p, 's) VCBlock \<Rightarrow> byte list" where
  "cosig_message env vcblock =
     (let message = write_at [] 0 (SerializeHeader env (Header vcblock));
          message = write_at message (VCBlockHeader_SIZE env) (SerializeSignature env (CS1 vcblock))
      in SetBitVector message (VCBlockHeader_SIZE env + BLOCK_SIG_SIZE env) (B1 vcblock))"

subsection \<open>Co-signature verification\<close>

text \<open>
  The loop of lines 78 to 86 over the committee: \<open>index\<close> runs along B2, which
  is read with \<^verbatim>\<open>at\<close>; a set bit appends the member's key and increments
  \<open>count\<close>. \<open>None\<close> is the exception of \<^verbatim>\<open>at\<close>.
\<close>

fun collect_signers ::
  "('k, 'p) committee \<Rightarrow> bool list \<Rightarrow> nat \<Rightarrow> 'k list \<Rightarrow> nat \<Rightarrow> ('k list \<times> nat) option" where
  "collect_signers [] b2 index keys count = Some (keys, count)"
| "collect_signers (kv # rest) b2 index keys count =
     (case checked_at b2 index of
        None \<Rightarrow> None
      | Some b \<Rightarrow>
          if b then collect_signers rest b2 (index + 1) (keys @ [fst kv]) (count + 1)
          else collect_signers rest b2 (index + 1) keys count)"

definition VerifyVCBlockCoSignature ::
  "('k, 'p, 's) collaborators \<Rightarrow> ('k, 'p) committee \<Rightarrow> ('k, 'p, 's) VCBlock \<Rightarrow> outcome" where
  "VerifyVCBlockCoSignature env committee vcblock =
     (if length committee \<noteq> length (B2 vcblock) then Returned False
      else case collect_signers committee (B2 vcblock) 0 [] 0 of
        None \<Rightarrow> Threw_out_of_range
      | Some (keys, count) \<Rightarrow>
          if count \<noteq> NumForConsensus env (length (B2 vcblock)) then Returned False
          else case AggregatePubKeys env keys of
            None \<Rightarrow> Returned False
          | Some aggregatedKey \<Rightarrow>
              if \<not> SchnorrVerify env (cosig_message env vcblock) (CS2 vcblock) aggregatedKey
              then Returned False
              else Returned True)"

subsection \<open>Processing a view-change block\<close>

text \<open>
  \<^verbatim>\<open>Node::ProcessVCBlock\<close>, returning the outcome and the mediator state after
  the call. The counter is compared with the committee's size as unsigned
  values; the remainder is taken only when the counter is greater than the
  size. Both reads of the committee are \<^verbatim>\<open>at(newCandidateLeader)\<close>.
\<close>

definition resolve_candidate :: "nat \<Rightarrow> nat \<Rightarrow> nat option" where
  "resolve_candidate newCandidateLeader committee_size =
     (if newCandidateLeader > committee_size
      then (if committee_size = 0 then None
            else Some (newCandidateLeader mod committee_size))
      else Some newCandidateLeader)"

definition ProcessVCBlock ::
  "('k, 'p, 's) collaborators \<Rightarrow> ('k, 'p) mediator \<Rightarrow> byte list \<Rightarrow> nat
     \<Rightarrow> outcome \<times> ('k, 'p) mediator" where
  "ProcessVCBlock env m message cur_offset =
     (case GetNodeVCBlock env message cur_offset of
        None \<Rightarrow> (Returned False, m)
      | Some vcblock \<Rightarrow>
          if ViewChangeEpochNo (Header vcblock) \<noteq> m_currentEpochNum m
          then (Returned False, m)
          else case resolve_candidate (unat (ViewChangeCounter (Header vcblock)))
                      (length (m_DSCommittee m)) of
            None \<Rightarrow> (Undefined_behaviour, m)
          | Some newCandidateLeader \<Rightarrow>
              (case checked_at (m_DSCommittee m) newCandidateLeader of
                 None \<Rightarrow> (Threw_out_of_range, m)
               | Some member \<Rightarrow>
                   if \<not> (snd member = CandidateLeaderNetworkInfo (Header vcblock)
                          \<and> fst member = CandidateLeaderPubKey (Header vcblock))
                   then (Returned False, m)
                   else case VerifyVCBlockCoSignature env (m_DSCommittee m) vcblock of
                     Returned True \<Rightarrow>
                       (case rotation_loop newCandidateLeader (m_DSCommittee m) of
                          None \<Rightarrow> (Undefined_behaviour, m)
                        | Some c \<Rightarrow> (Returned True, m\<lparr>m_DSCommittee := c\<rparr>))
                   | Returned False \<Rightarrow> (Returned False, m)
                   | failure \<Rightarrow> (failure, m)))"

subsection \<open>Notions used to state the properties\<close>

text \<open>
  The keys that the loop of \<^verbatim>\<open>VerifyVCBlockCoSignature\<close> collects when B2 is as
  long as the committee: the keys of the members whose bit is set, in committee
  order.
\<close>

definition signers :: "('k, 'p) committee \<Rightarrow> bool list \<Rightarrow> 'k list" where
  "signers c b2 = map (fst \<circ> fst) (filter snd (zip c b2))"

text \<open>
  The checks after the quorum check (lines 94 to 116): the signers' keys
  aggregate to a key, and CS2 verifies under it over the message of the block.
\<close>

definition cosig_valid ::
  "('k, 'p, 's) collaborators \<Rightarrow> ('k, 'p) committee \<Rightarrow> ('k, 'p, 's) VCBlock \<Rightarrow> bool" where
  "cosig_valid env c vcblock =
     (case AggregatePubKeys env (signers c (B2 vcblock)) of
        None \<Rightarrow> False
      | Some key \<Rightarrow> SchnorrVerify env (cosig_message env vcblock) (CS2 vcblock) key)"

subsection \<open>A sample instance\<close>

text \<open>
  A small instance of the collaborators, for evaluating the functions at
  concrete inputs. Keys and peers are numbers; a signature is the pair of the
  signing key and the signed bytes; keys aggregate by addition, and no keys
  aggregate to nothing; the quorum of five members is four. The decoder is
  an argument.
\<close>

type_synonym sample_sig = "nat \<times> byte list"

type_synonym sample_vcblock = "(nat, nat, sample_sig) VCBlock"

definition sample_env ::
  "(byte list \<Rightarrow> nat \<Rightarrow> sample_vcblock option) \<Rightarrow> (nat, nat, sample_sig) collaborators" where
  "sample_env decode =
     \<lparr> NumForConsensus = (\<lambda>n. 2 * n div 3 + 1),
       AggregatePubKeys = (\<lambda>keys. if keys = [] then None else Some (sum_list keys)),
       SchnorrVerify = (\<lambda>message sig key. sig = (key, message)),
       GetNodeVCBlock = decode,
       SerializeHeader = (\<lambda>h. [of_nat (ViewChangeEpochNo h), ViewChangeState h,
                               ucast (ViewChangeCounter h), of_nat (CandidateLeaderPubKey h),
                               of_nat (TimeStamp h)]),
       SerializeSignature = (\<lambda>s. [of_nat (fst s)]),
       VCBlockHeader_SIZE = 5,
       BLOCK_SIG_SIZE = 1 \<rparr>"

text \<open>A decoder given by a table from the bytes at the offset to blocks.\<close>

definition sample_decode ::
  "(byte list \<times> sample_vcblock) list \<Rightarrow> byte list \<Rightarrow> nat \<Rightarrow> sample_vcblock option" where
  "sample_decode table message offset = map_of table (drop offset message)"

definition sample_crypto :: "(nat, nat, sample_sig) collaborators" where
  "sample_crypto = sample_env (sample_decode [])"

text \<open>
  A block for epoch, counter, candidate leader, state tag, timestamp, B1 and B2,
  with CS2 the signature of the block's own message under the given key.
\<close>

definition sample_block ::
  "nat \<Rightarrow> 32 word \<Rightarrow> nat \<times> nat \<Rightarrow> byte \<Rightarrow> nat \<Rightarrow> bool list \<Rightarrow> bool list \<Rightarrow> nat
     \<Rightarrow> sample_vcblock" where
  "sample_block epoch counter leader st ts b1 b2 key =
     (let blk = \<lparr> Header = \<lparr> VieWChangeDSEpochNo = 1, ViewChangeEpochNo = epoch,
                              ViewChangeState = st, CandidateLeaderIndex = counter,
                              CandidateLeaderNetworkInfo = snd leader,
                              CandidateLeaderPubKey = fst leader,
                              ViewChangeCounter = counter, TimeStamp = ts \<rparr>,
                  CS1 = (9, []), B1 = b1, CS2 = (0, []), B2 = b2 \<rparr>
      in blk\<lparr>CS2 := (key, cosig_message sample_crypto blk)\<rparr>)"

text \<open>The committee [A, B, C, D, E] and a node in epoch 7 that holds it.\<close>

definition committee5 :: "(nat, nat) committee" where
  "committee5 = [(1, 101), (2, 102), (3, 103), (4, 104), (5, 105)]"

definition node5 :: "(nat, nat) mediator" where
  "node5 = \<lparr> m_currentEpochNum = 7, m_DSCommittee = committee5 \<rparr>"

definition all5 :: "bool list" where
  "all5 = [True, True, True, True, True]"

definition first4 :: "bool list" where
  "first4 = [True, True, True, True, False]"

text \<open>Counter 2, candidate C, signed by A, B, C and D.\<close>

definition vc_two :: sample_vcblock where
  "vc_two = sample_block 7 2 (3, 103) 0 55 all5 first4 10"

text \<open>The same with another state tag and timestamp.\<close>

definition vc_two_late :: sample_vcblock where
  "vc_two_late = sample_block 7 2 (3, 103) 1 99 all5 first4 10"

text \<open>
  The same with B1 replaced by another bitmap after signing: CS2 is still the
  signature of the message that holds the first B1.
\<close>

definition vc_two_other_b1 :: sample_vcblock where
  "vc_two_other_b1 = vc_two\<lparr>B1 := first4\<rparr>"

text \<open>The same signed by A, B and C only, and signed by all five.\<close>

definition vc_three_signers :: sample_vcblock where
  "vc_three_signers = sample_block 7 2 (3, 103) 0 55 all5 [True, True, True, False, False] 6"

definition vc_five_signers :: sample_vcblock where
  "vc_five_signers = sample_block 7 2 (3, 103) 0 55 all5 all5 15"

text \<open>The same with a B2 of four bits, with an empty B1, and for epoch 8.\<close>

definition vc_short_b2 :: sample_vcblock where
  "vc_short_b2 = sample_block 7 2 (3, 103) 0 55 all5 [True, True, True, True] 10"

definition vc_empty_b1 :: sample_vcblock where
  "vc_empty_b1 = sample_block 7 2 (3, 103) 0 55 [] first4 10"

definition vc_epoch8 :: sample_vcblock where
  "vc_epoch8 = sample_block 8 2 (3, 103) 0 55 all5 first4 10"

text \<open>Counter 5, the size of the committee, with candidate A.\<close>

definition vc_five :: sample_vcblock where
  "vc_five = sample_block 7 5 (1, 101) 0 55 all5 first4 10"

text \<open>Counters 0 and 10 with candidate A, the front member.\<close>

definition vc_zero :: sample_vcblock where
  "vc_zero = sample_block 7 0 (1, 101) 0 55 all5 first4 10"

definition vc_ten :: sample_vcblock where
  "vc_ten = sample_block 7 10 (1, 101) 0 55 all5 first4 10"

text \<open>
  Counter 7 with candidate C; counter 4 with candidate B, signed by the first
  four members of [C, D, E, A, B]; counter 1 with candidate B.
\<close>

definition vc_seven :: sample_vcblock where
  "vc_seven = sample_block 7 7 (3, 103) 0 55 all5 first4 10"

definition vc_four :: sample_vcblock where
  "vc_four = sample_block 7 4 (2, 102) 0 55 all5 first4 13"

definition vc_one :: sample_vcblock where
  "vc_one = sample_block 7 1 (2, 102) 0 55 all5 first4 10"

section \<open>Properties\<close>

declare BitVector_bytes.simps [simp del]

subsection \<open>The loops\<close>

lemma collect_signers_total:
  "index + length c = length b2 \<Longrightarrow>
   collect_signers c b2 index keys count =
     Some (keys @ map (fst \<circ> fst) (filter snd (zip c (drop index b2))),
           count + length (filter id (drop index b2)))"
proof (induction c arbitrary: index keys count)
  case Nil
  then show ?case by simp
next
  case (Cons kv rest)
  from Cons.prems have lt: "index < length b2" by simp
  then have dr: "drop index b2 = b2 ! index # drop (Suc index) b2"
    by (simp add: Cons_nth_drop_Suc)
  from Cons.prems have nx: "Suc index + length rest = length b2" by simp
  show ?case
    using lt Cons.IH [OF nx] by (simp add: checked_at_def dr)
qed

lemma rotation_loop_rotate:
  "c \<noteq> [] \<Longrightarrow> rotation_loop n c = Some (rotate n c)"
proof (induction n arbitrary: c)
  case 0
  then show ?case by simp
next
  case (Suc n)
  then obtain front rest where c: "c = front # rest" by (cases c) auto
  have "rotation_loop (Suc n) c = rotation_loop n (rest @ [front])" by (simp add: c)
  also have "\<dots> = Some (rotate n (rest @ [front]))" by (rule Suc.IH) simp
  also have "rotate n (rest @ [front]) = rotate (Suc n) c"
    by (simp add: c rotate1_rotate_swap)
  finally show ?case .
qed

subsection \<open>The message\<close>

lemma write_at_append:
  "length dst = offset \<Longrightarrow> write_at dst offset bytes = dst @ bytes"
  by (simp add: write_at_def)

lemma length_BitVector_bytes: "length (BitVector_bytes bs) = (length bs + 7) div 8"
proof (induction bs rule: BitVector_bytes.induct)
  case (1 bs)
  show ?case
  proof (cases "bs = []")
    case True
    then show ?thesis by (simp add: BitVector_bytes.simps)
  next
    case False
    then have "length (BitVector_bytes bs) = Suc ((length bs - 8 + 7) div 8)"
      using 1 by (subst BitVector_bytes.simps) simp
    also have "\<dots> = (length bs + 7) div 8"
    proof (cases "8 \<le> length bs")
      case True
      then obtain r where r: "length bs = r + 8" by (metis le_add_diff_inverse2)
      show ?thesis by (simp add: r)
    next
      case F: False
      from False obtain r where r: "length bs = Suc r" by (cases bs) auto
      with F have "r < 8" by simp
      then show ?thesis by (simp add: r)
    qed
    finally show ?thesis .
  qed
qed

lemma bit_byte_of_bits:
  "length bs \<le> Suc w \<Longrightarrow> w < 8 \<Longrightarrow>
   bit (byte_of_bits bs w) n \<longleftrightarrow> (n \<le> w \<and> w - n < length bs \<and> bs ! (w - n))"
proof (induction bs arbitrary: w n)
  case Nil
  then show ?case by simp
next
  case (Cons b bs)
  from Cons.prems have len: "length bs \<le> Suc (w - 1)" and w': "w - 1 < 8" by simp_all
  note IH = Cons.IH [OF len w']
  have low: "\<not> bit (byte_of_bits bs (w - 1)) w"
  proof
    assume "bit (byte_of_bits bs (w - 1)) w"
    then have "w \<le> w - 1" and "w - 1 - w < length bs" using IH [of w] by simp_all
    with Cons.prems show False by (cases w) simp_all
  qed
  have disj: "\<not> bit ((if b then 2 ^ w else 0) :: byte) k \<or> \<not> bit (byte_of_bits bs (w - 1)) k"
    for k
    using low by (auto simp: bit_exp_iff)
  have "and ((if b then 2 ^ w else 0) :: byte) (byte_of_bits bs (w - 1)) = 0"
  proof (rule bit_eqI)
    fix k
    show "bit (and ((if b then 2 ^ w else 0) :: byte) (byte_of_bits bs (w - 1))) k
            \<longleftrightarrow> bit (0 :: byte) k"
      using disj [of k] by (simp add: bit_and_iff)
  qed
  then have "(if b then 2 ^ w else 0) + byte_of_bits bs (w - 1)
               = or (if b then 2 ^ w else 0) (byte_of_bits bs (w - 1))"
    by (rule disjunctive_add_eq_or)
  then have "byte_of_bits (b # bs) w = or (if b then 2 ^ w else 0) (byte_of_bits bs (w - 1))"
    by simp
  then have "bit (byte_of_bits (b # bs) w) n \<longleftrightarrow>
      bit ((if b then 2 ^ w else 0) :: byte) n \<or> bit (byte_of_bits bs (w - 1)) n"
    by (simp only: bit_or_iff)
  moreover have "bit ((if b then 2 ^ w else 0) :: byte) n \<longleftrightarrow> b \<and> n = w"
    using Cons.prems(2) by (auto simp: bit_exp_iff)
  ultimately have "bit (byte_of_bits (b # bs) w) n \<longleftrightarrow>
      (b \<and> n = w) \<or> (n \<le> w - 1 \<and> w - 1 - n < length bs \<and> bs ! (w - 1 - n))"
    using IH [of n] by blast
  also have "\<dots> \<longleftrightarrow> (n \<le> w \<and> w - n < length (b # bs) \<and> (b # bs) ! (w - n))"
  proof (cases "n < w")
    case True
    then obtain j where j: "w - n = Suc j" "w - 1 - n = j" by (cases "w - n") auto
    with True show ?thesis by auto
  next
    case False
    show ?thesis
    proof (cases "n = w")
      case True
      with Cons.prems show ?thesis by (cases w) auto
    next
      case F: False
      with False show ?thesis by auto
    qed
  qed
  finally show ?case .
qed

lemma BitVector_bytes_nth:
  "8 * q < length bs \<Longrightarrow>
   BitVector_bytes bs ! q = byte_of_bits (take 8 (drop (8 * q) bs)) 7"
proof (induction q arbitrary: bs)
  case 0
  then have "bs \<noteq> []" by auto
  then show ?case by (subst BitVector_bytes.simps) simp
next
  case (Suc q)
  then have ne: "bs \<noteq> []" and lt: "8 * q < length (drop 8 bs)" by auto
  from ne have "BitVector_bytes bs ! Suc q = BitVector_bytes (drop 8 bs) ! q"
    by (subst BitVector_bytes.simps) simp
  also have "\<dots> = byte_of_bits (take 8 (drop (8 * q) (drop 8 bs))) 7"
    using lt by (rule Suc.IH)
  also have "drop (8 * q) (drop 8 bs) = drop (8 * Suc q) bs"
    by (simp add: add.commute)
  finally show ?case .
qed

lemma BitVector_bytes_bit:
  assumes "i < length bs"
  shows "bit (BitVector_bytes bs ! (i div 8)) (7 - i mod 8) \<longleftrightarrow> bs ! i"
proof -
  let ?g = "take 8 (drop (8 * (i div 8)) bs)"
  have q: "8 * (i div 8) < length bs" using assms by (simp add: less_mult_imp_div_less dual_order.strict_trans1)
  have r: "i mod 8 < length ?g" using assms by (simp add: min_def) presburger
  have "bit (BitVector_bytes bs ! (i div 8)) (7 - i mod 8)
      \<longleftrightarrow> bit (byte_of_bits ?g 7) (7 - i mod 8)"
    by (simp add: BitVector_bytes_nth [OF q])
  also have "\<dots> \<longleftrightarrow> ?g ! (i mod 8)"
    using r bit_byte_of_bits [of ?g 7 "7 - i mod 8"] by simp
  also have "?g ! (i mod 8) = bs ! (8 * (i div 8) + i mod 8)"
    using r q by simp
  also have "8 * (i div 8) + i mod 8 = i" by simp
  finally show ?thesis .
qed

lemma cosig_message_concat:
  assumes "length (SerializeHeader env (Header vc)) = VCBlockHeader_SIZE env"
    and "length (SerializeSignature env (CS1 vc)) = BLOCK_SIG_SIZE env"
  shows "cosig_message env vc =
     SerializeHeader env (Header vc) @ SerializeSignature env (CS1 vc) @ BitVector_bytes (B1 vc)"
proof -
  have h: "write_at [] 0 (SerializeHeader env (Header vc)) = SerializeHeader env (Header vc)"
    by (simp add: write_at_def)
  have s: "write_at (SerializeHeader env (Header vc)) (VCBlockHeader_SIZE env)
             (SerializeSignature env (CS1 vc))
           = SerializeHeader env (Header vc) @ SerializeSignature env (CS1 vc)"
    using assms(1) by (rule write_at_append)
  have b: "write_at (SerializeHeader env (Header vc) @ SerializeSignature env (CS1 vc))
             (VCBlockHeader_SIZE env + BLOCK_SIG_SIZE env) (BitVector_bytes (B1 vc))
           = (SerializeHeader env (Header vc) @ SerializeSignature env (CS1 vc))
               @ BitVector_bytes (B1 vc)"
    by (rule write_at_append) (simp add: assms)
  show ?thesis
    by (simp add: cosig_message_def SetBitVector_def Let_def h s b)
qed

subsection \<open>The verifier and the processor\<close>

lemma VerifyVCBlockCoSignature_eq:
  "VerifyVCBlockCoSignature env c vc =
     Returned (length c = length (B2 vc)
       \<and> length (filter id (B2 vc)) = NumForConsensus env (length (B2 vc))
       \<and> cosig_valid env c vc)"
proof (cases "length c = length (B2 vc)")
  case False
  then show ?thesis by (simp add: VerifyVCBlockCoSignature_def)
next
  case True
  then have "collect_signers c (B2 vc) 0 [] 0 =
      Some (signers c (B2 vc), length (filter id (B2 vc)))"
    using collect_signers_total [of 0 c "B2 vc" "[]" 0] by (simp add: signers_def)
  with True show ?thesis
    by (auto simp: VerifyVCBlockCoSignature_def cosig_valid_def split: option.splits)
qed

lemma resolve_candidate_in_range:
  "(resolve_candidate k n = Some i \<and> i < n) \<longleftrightarrow> (n \<noteq> 0 \<and> k \<noteq> n \<and> i = k mod n)"
  by (cases "k > n") (auto simp: resolve_candidate_def)

lemma ProcessVCBlock_accepts_iff:
  assumes dec: "GetNodeVCBlock env message off = Some vc"
  shows "ProcessVCBlock env m message off = (Returned True, m') \<longleftrightarrow>
     (ViewChangeEpochNo (Header vc) = m_currentEpochNum m
      \<and> m_DSCommittee m \<noteq> []
      \<and> unat (ViewChangeCounter (Header vc)) \<noteq> length (m_DSCommittee m)
      \<and> m_DSCommittee m ! (unat (ViewChangeCounter (Header vc)) mod length (m_DSCommittee m))
          = (CandidateLeaderPubKey (Header vc), CandidateLeaderNetworkInfo (Header vc))
      \<and> VerifyVCBlockCoSignature env (m_DSCommittee m) vc = Returned True
      \<and> m' = m\<lparr>m_DSCommittee :=
            rotate (unat (ViewChangeCounter (Header vc)) mod length (m_DSCommittee m))
              (m_DSCommittee m)\<rparr>)"
proof -
  let ?c = "m_DSCommittee m"
  let ?k = "unat (ViewChangeCounter (Header vc))"
  show ?thesis
  proof (cases "resolve_candidate ?k (length ?c)")
    case None
    then have "?c = []" "?k \<noteq> length ?c"
      by (auto simp: resolve_candidate_def split: if_splits)
    with None dec show ?thesis by (simp add: ProcessVCBlock_def)
  next
    case (Some i)
    show ?thesis
    proof (cases "i < length ?c")
      case False
      with Some have "\<not> (?c \<noteq> [] \<and> ?k \<noteq> length ?c)"
        by (auto simp: resolve_candidate_def split: if_splits)
      moreover from False Some dec have "fst (ProcessVCBlock env m message off) \<noteq> Returned True"
        by (simp add: ProcessVCBlock_def checked_at_def)
      ultimately show ?thesis by auto
    next
      case True
      with Some have r: "?c \<noteq> []" "?k \<noteq> length ?c" "i = ?k mod length ?c"
        using resolve_candidate_in_range [of ?k "length ?c" i] by auto
      have rot: "rotation_loop i ?c = Some (rotate i ?c)"
        using r(1) by (rule rotation_loop_rotate)
      obtain b where b: "VerifyVCBlockCoSignature env ?c vc = Returned b"
        by (simp add: VerifyVCBlockCoSignature_eq)
      show ?thesis
        using dec Some True rot b r
        by (cases b; cases "?c ! i") (auto simp: ProcessVCBlock_def checked_at_def)
    qed
  qed
qed

lemma ProcessVCBlock_not_accepted_unchanged:
  "fst (ProcessVCBlock env m message off) \<noteq> Returned True \<Longrightarrow>
   snd (ProcessVCBlock env m message off) = m"
  by (auto simp: ProcessVCBlock_def split: option.splits outcome.splits bool.splits if_splits)

lemma ProcessVCBlock_returns_boolean:
  assumes ne: "m_DSCommittee m \<noteq> []"
    and k: "\<And>vc. GetNodeVCBlock env message off = Some vc \<Longrightarrow>
              ViewChangeEpochNo (Header vc) = m_currentEpochNum m \<Longrightarrow>
              unat (ViewChangeCounter (Header vc)) \<noteq> length (m_DSCommittee m)"
  shows "\<exists>b. fst (ProcessVCBlock env m message off) = Returned b"
proof (cases "GetNodeVCBlock env message off")
  case None
  then show ?thesis by (auto simp: ProcessVCBlock_def)
next
  case (Some vc)
  let ?c = "m_DSCommittee m"
  let ?k = "unat (ViewChangeCounter (Header vc))"
  show ?thesis
  proof (cases "ViewChangeEpochNo (Header vc) = m_currentEpochNum m")
    case False
    with Some show ?thesis by (auto simp: ProcessVCBlock_def)
  next
    case True
    with Some have "?k \<noteq> length ?c" by (rule k)
    with ne have res: "resolve_candidate ?k (length ?c) = Some (?k mod length ?c)"
      and lt: "?k mod length ?c < length ?c"
      using resolve_candidate_in_range [of ?k "length ?c" "?k mod length ?c"] by simp_all
    have rot: "rotation_loop (?k mod length ?c) ?c = Some (rotate (?k mod length ?c) ?c)"
      using ne by (rule rotation_loop_rotate)
    obtain b where b: "VerifyVCBlockCoSignature env ?c vc = Returned b"
      by (simp add: VerifyVCBlockCoSignature_eq)
    show ?thesis
      using Some True res lt rot b
      by (cases b) (auto simp: ProcessVCBlock_def checked_at_def)
  qed
qed

subsection \<open>The claims\<close>

text \<open>
  C1, as stated, fails on the code: in the committee [A, B, C, D, E] with
  threshold 4, a block whose B2 has all five bits set, whose signers' keys
  aggregate and whose CS2 verifies under the aggregated key, has a signer count
  above the threshold and is rejected by the co-signature verification.
\<close>

theorem C1_counterexample:
  "NumForConsensus sample_crypto (length committee5) = 4
   \<and> length (filter id (B2 vc_five_signers)) = 5
   \<and> length (B2 vc_five_signers) = length committee5
   \<and> cosig_valid sample_crypto committee5 vc_five_signers
   \<and> VerifyVCBlockCoSignature sample_crypto committee5 vc_five_signers = Returned False"
  by code_simp

text \<open>
  C1 (amended): for every committee of size N and every proof, acceptance of the
  co-signature requires that the number of set bits in bitmap B2 is exactly
  NumForConsensus(N): the verification returns false when the signer count
  differs from the threshold, below or above it, and a proof with a signer
  count equal to the threshold, all other checks passing (B2 of length N, the
  keys aggregate, CS2 verifies), is accepted.
\<close>

theorem C1_exact_quorum:
  "(VerifyVCBlockCoSignature env c vc = Returned True \<longrightarrow>
      length (filter id (B2 vc)) = NumForConsensus env (length c))
   \<and> (length (filter id (B2 vc)) \<noteq> NumForConsensus env (length c) \<longrightarrow>
      VerifyVCBlockCoSignature env c vc = Returned False)
   \<and> (length (B2 vc) = length c
       \<and> length (filter id (B2 vc)) = NumForConsensus env (length c)
       \<and> cosig_valid env c vc \<longrightarrow>
      VerifyVCBlockCoSignature env c vc = Returned True)"
  by (auto simp: VerifyVCBlockCoSignature_eq)

theorem C1_exact_quorum_witness:
  "VerifyVCBlockCoSignature sample_crypto committee5 vc_two = Returned True
   \<and> length (filter id (B2 vc_two)) = NumForConsensus sample_crypto (length committee5)
   \<and> length (filter id (B2 vc_three_signers)) < NumForConsensus sample_crypto (length committee5)
   \<and> VerifyVCBlockCoSignature sample_crypto committee5 vc_three_signers = Returned False
   \<and> length (filter id (B2 vc_five_signers)) > NumForConsensus sample_crypto (length committee5)
   \<and> VerifyVCBlockCoSignature sample_crypto committee5 vc_five_signers = Returned False"
proof -
  have l: "length (B2 vc_two) = length committee5"
    and q: "length (filter id (B2 vc_two)) = NumForConsensus sample_crypto (length committee5)"
    and v: "cosig_valid sample_crypto committee5 vc_two"
    by code_simp+
  have below: "length (filter id (B2 vc_three_signers))
                 < NumForConsensus sample_crypto (length committee5)"
    and above: "length (filter id (B2 vc_five_signers))
                 > NumForConsensus sample_crypto (length committee5)"
    by code_simp+
  from C1_exact_quorum [of sample_crypto committee5 vc_two] l q v
  have "VerifyVCBlockCoSignature sample_crypto committee5 vc_two = Returned True"
    by blast
  moreover from C1_exact_quorum [of sample_crypto committee5 vc_three_signers] below
  have "VerifyVCBlockCoSignature sample_crypto committee5 vc_three_signers = Returned False"
    by simp
  moreover from C1_exact_quorum [of sample_crypto committee5 vc_five_signers] above
  have "VerifyVCBlockCoSignature sample_crypto committee5 vc_five_signers = Returned False"
    by simp
  ultimately show ?thesis using q below above by blast
qed

text \<open>
  C2: the claim is that ProcessVCBlock never throws for a non-empty committee,
  in particular when the view-change counter equals the committee's size. On
  the code, a decoded block of the local epoch whose counter equals the size of
  the committee is not reduced (the test is "greater than"), and the lookup
  \<^verbatim>\<open>at(newCandidateLeader)\<close> throws \<^verbatim>\<open>std::out_of_range\<close>; the node's
  state is as before.
\<close>

theorem C2_counter_equal_size_throws:
  assumes "GetNodeVCBlock env message off = Some vc"
    and "ViewChangeEpochNo (Header vc) = m_currentEpochNum m"
    and "unat (ViewChangeCounter (Header vc)) = length (m_DSCommittee m)"
  shows "ProcessVCBlock env m message off = (Threw_out_of_range, m)"
  using assms by (simp add: ProcessVCBlock_def resolve_candidate_def checked_at_def)

theorem C2_counter_equal_size_throws_witness:
  "m_DSCommittee node5 \<noteq> []
   \<and> unat (ViewChangeCounter (Header vc_five)) = length (m_DSCommittee node5)
   \<and> ProcessVCBlock (sample_env (sample_decode [([1], vc_five)])) node5 [1] 0
        = (Threw_out_of_range, node5)"
proof -
  have d: "GetNodeVCBlock (sample_env (sample_decode [([1], vc_five)])) [1] 0 = Some vc_five"
    by (simp add: sample_env_def sample_decode_def)
  have e: "ViewChangeEpochNo (Header vc_five) = m_currentEpochNum node5"
    and k: "unat (ViewChangeCounter (Header vc_five)) = length (m_DSCommittee node5)"
    and n: "m_DSCommittee node5 \<noteq> []"
    by code_simp+
  from C2_counter_equal_size_throws [OF d e k] k n show ?thesis by blast
qed

text \<open>
  C3: for every committee of size N \<ge> 1 and every accepted proof with
  view-change counter k, the state after ProcessVCBlock returns true is the
  state before it with the committee rotated left by k mod N positions (the
  members from position k mod N on, followed by the first k mod N members, in
  their order), and nothing else changed; acceptance implies N \<ge> 1. When the
  resolved counter is 0 the rotation loop runs zero times: an accepted proof
  leaves the state as it was, and a proof of the local epoch that names the
  front member and whose co-signature verifies is accepted.
\<close>

theorem C3_accepted_rotates_left:
  assumes "GetNodeVCBlock env message off = Some vc"
  shows "(ProcessVCBlock env m message off = (Returned True, m') \<longrightarrow>
            1 \<le> length (m_DSCommittee m)
            \<and> m' = m\<lparr>m_DSCommittee :=
                  rotate (unat (ViewChangeCounter (Header vc)) mod length (m_DSCommittee m))
                    (m_DSCommittee m)\<rparr>
            \<and> m_DSCommittee m' =
                  drop (unat (ViewChangeCounter (Header vc)) mod length (m_DSCommittee m))
                    (m_DSCommittee m)
                  @ take (unat (ViewChangeCounter (Header vc)) mod length (m_DSCommittee m))
                    (m_DSCommittee m)
            \<and> (unat (ViewChangeCounter (Header vc)) mod length (m_DSCommittee m) = 0 \<longrightarrow>
                  m' = m))
    \<and> (ViewChangeEpochNo (Header vc) = m_currentEpochNum m
        \<and> resolve_candidate (unat (ViewChangeCounter (Header vc))) (length (m_DSCommittee m))
            = Some 0
        \<and> m_DSCommittee m \<noteq> []
        \<and> hd (m_DSCommittee m)
            = (CandidateLeaderPubKey (Header vc), CandidateLeaderNetworkInfo (Header vc))
        \<and> VerifyVCBlockCoSignature env (m_DSCommittee m) vc = Returned True \<longrightarrow>
          rotation_loop 0 (m_DSCommittee m) = Some (m_DSCommittee m)
          \<and> ProcessVCBlock env m message off = (Returned True, m))"
proof (intro conjI impI)
  let ?c = "m_DSCommittee m"
  let ?r = "unat (ViewChangeCounter (Header vc)) mod length ?c"
  assume acc: "ProcessVCBlock env m message off = (Returned True, m')"
  then have ne: "?c \<noteq> []" and m': "m' = m\<lparr>m_DSCommittee := rotate ?r ?c\<rparr>"
    using ProcessVCBlock_accepts_iff [OF assms, of m m'] by simp_all
  from ne show "1 \<le> length ?c" by (cases ?c) simp_all
  from m' show "m' = m\<lparr>m_DSCommittee := rotate ?r ?c\<rparr>" .
  have "?r mod length ?c = ?r" by simp
  then show "m_DSCommittee m' = drop ?r ?c @ take ?r ?c"
    using rotate_drop_take [of ?r ?c] by (simp add: m')
  show "m' = m" if "?r = 0"
    using that by (simp add: m')
next
  let ?c = "m_DSCommittee m"
  assume h: "ViewChangeEpochNo (Header vc) = m_currentEpochNum m
        \<and> resolve_candidate (unat (ViewChangeCounter (Header vc))) (length ?c) = Some 0
        \<and> ?c \<noteq> []
        \<and> hd ?c = (CandidateLeaderPubKey (Header vc), CandidateLeaderNetworkInfo (Header vc))
        \<and> VerifyVCBlockCoSignature env ?c vc = Returned True"
  show "rotation_loop 0 ?c = Some ?c" by simp
  from h have "checked_at ?c 0 = Some (hd ?c)"
    by (cases ?c) (simp_all add: checked_at_def)
  with h assms show "ProcessVCBlock env m message off = (Returned True, m)"
    by (simp add: ProcessVCBlock_def)
qed

theorem C3_accepted_rotates_left_witness:
  "ProcessVCBlock (sample_env (sample_decode [([1], vc_two), ([2], vc_ten)])) node5 [1] 0
     = (Returned True, node5\<lparr>m_DSCommittee := [(3, 103), (4, 104), (5, 105), (1, 101), (2, 102)]\<rparr>)
   \<and> ProcessVCBlock (sample_env (sample_decode [([1], vc_two), ([2], vc_ten)])) node5 [2] 0
     = (Returned True, node5)"
proof -
  let ?env = "sample_env (sample_decode [([1], vc_two), ([2], vc_ten)])"
  have d1: "GetNodeVCBlock ?env [1] 0 = Some vc_two"
    and d2: "GetNodeVCBlock ?env [2] 0 = Some vc_ten"
    by (simp_all add: sample_env_def sample_decode_def)
  have a: "ProcessVCBlock ?env node5 [1] 0 = (Returned True, snd (ProcessVCBlock ?env node5 [1] 0))"
    by code_simp
  have r: "rotate (unat (ViewChangeCounter (Header vc_two)) mod length (m_DSCommittee node5))
             (m_DSCommittee node5) = [(3, 103), (4, 104), (5, 105), (1, 101), (2, 102)]"
    by code_simp
  have e: "ViewChangeEpochNo (Header vc_ten) = m_currentEpochNum node5"
    and z: "resolve_candidate (unat (ViewChangeCounter (Header vc_ten)))
              (length (m_DSCommittee node5)) = Some 0"
    and n: "m_DSCommittee node5 \<noteq> []"
    and l: "hd (m_DSCommittee node5)
              = (CandidateLeaderPubKey (Header vc_ten), CandidateLeaderNetworkInfo (Header vc_ten))"
    and v: "VerifyVCBlockCoSignature ?env (m_DSCommittee node5) vc_ten = Returned True"
    by code_simp+
  from C3_accepted_rotates_left [OF d1, of node5 "snd (ProcessVCBlock ?env node5 [1] 0)"] a r
  have "ProcessVCBlock ?env node5 [1] 0
     = (Returned True, node5\<lparr>m_DSCommittee := [(3, 103), (4, 104), (5, 105), (1, 101), (2, 102)]\<rparr>)"
    by simp
  moreover from C3_accepted_rotates_left [OF d2, of node5 node5] e z n l v
  have "ProcessVCBlock ?env node5 [2] 0 = (Returned True, node5)"
    by blast
  ultimately show ?thesis by simp
qed

text \<open>
  C4: for every committee of size N and all counters k1 and k2, processing an
  accepted proof with counter k1 and then, on the resulting state, an accepted
  proof with counter k2 gives the same final state as processing, on the
  initial state, one accepted proof with counter (k1 + k2) mod N.
\<close>

theorem C4_rotations_compose:
  assumes "GetNodeVCBlock env message1 off1 = Some vc1"
    and "GetNodeVCBlock env message2 off2 = Some vc2"
    and "GetNodeVCBlock env message3 off3 = Some vc3"
    and "ProcessVCBlock env m message1 off1 = (Returned True, m1)"
    and "ProcessVCBlock env m1 message2 off2 = (Returned True, m2)"
    and "ProcessVCBlock env m message3 off3 = (Returned True, m3)"
    and "unat (ViewChangeCounter (Header vc3))
           = (unat (ViewChangeCounter (Header vc1)) + unat (ViewChangeCounter (Header vc2)))
               mod length (m_DSCommittee m)"
  shows "m3 = m2"
proof -
  let ?c = "m_DSCommittee m"
  let ?n = "length ?c"
  let ?k1 = "unat (ViewChangeCounter (Header vc1))"
  let ?k2 = "unat (ViewChangeCounter (Header vc2))"
  let ?k3 = "unat (ViewChangeCounter (Header vc3))"
  have m1: "m1 = m\<lparr>m_DSCommittee := rotate (?k1 mod ?n) ?c\<rparr>"
    using ProcessVCBlock_accepts_iff [OF assms(1), of m m1] assms(4) by simp
  then have c1: "m_DSCommittee m1 = rotate (?k1 mod ?n) ?c" by simp
  have m2: "m2 = m1\<lparr>m_DSCommittee := rotate (?k2 mod ?n) (rotate (?k1 mod ?n) ?c)\<rparr>"
    using ProcessVCBlock_accepts_iff [OF assms(2), of m1 m2] assms(5) by (simp add: c1)
  have m3: "m3 = m\<lparr>m_DSCommittee := rotate (?k3 mod ?n) ?c\<rparr>"
    using ProcessVCBlock_accepts_iff [OF assms(3), of m m3] assms(6) by simp
  have "rotate (?k2 mod ?n) (rotate (?k1 mod ?n) ?c) = rotate (?k2 mod ?n + ?k1 mod ?n) ?c"
    by (rule rotate_rotate)
  also have "\<dots> = rotate ((?k2 mod ?n + ?k1 mod ?n) mod ?n) ?c"
    by (rule rotate_conv_mod)
  also have "(?k2 mod ?n + ?k1 mod ?n) mod ?n = ?k3 mod ?n"
    by (simp add: assms(7) mod_add_eq add.commute)
  finally show ?thesis by (simp add: m1 m2 m3)
qed

theorem C4_rotations_compose_witness:
  "ProcessVCBlock (sample_env (sample_decode [([1], vc_seven), ([2], vc_four), ([3], vc_one)]))
     node5 [1] 0
     = (Returned True, node5\<lparr>m_DSCommittee := [(3, 103), (4, 104), (5, 105), (1, 101), (2, 102)]\<rparr>)
   \<and> ProcessVCBlock (sample_env (sample_decode [([1], vc_seven), ([2], vc_four), ([3], vc_one)]))
     (node5\<lparr>m_DSCommittee := [(3, 103), (4, 104), (5, 105), (1, 101), (2, 102)]\<rparr>) [2] 0
     = ProcessVCBlock (sample_env (sample_decode [([1], vc_seven), ([2], vc_four), ([3], vc_one)]))
     node5 [3] 0
   \<and> fst (ProcessVCBlock (sample_env (sample_decode [([1], vc_seven), ([2], vc_four), ([3], vc_one)]))
     node5 [3] 0) = Returned True"
proof -
  let ?env = "sample_env (sample_decode [([1], vc_seven), ([2], vc_four), ([3], vc_one)])"
  let ?m1 = "node5\<lparr>m_DSCommittee := [(3, 103), (4, 104), (5, 105), (1, 101), (2, 102)]\<rparr>"
  have d1: "GetNodeVCBlock ?env [1] 0 = Some vc_seven"
    and d2: "GetNodeVCBlock ?env [2] 0 = Some vc_four"
    and d3: "GetNodeVCBlock ?env [3] 0 = Some vc_one"
    by (simp_all add: sample_env_def sample_decode_def)
  have a1: "ProcessVCBlock ?env node5 [1] 0 = (Returned True, ?m1)"
    by code_simp
  have a2: "ProcessVCBlock ?env ?m1 [2] 0 = (Returned True, snd (ProcessVCBlock ?env ?m1 [2] 0))"
    by code_simp
  have a3: "ProcessVCBlock ?env node5 [3] 0 = (Returned True, snd (ProcessVCBlock ?env node5 [3] 0))"
    by code_simp
  have k: "unat (ViewChangeCounter (Header vc_one))
           = (unat (ViewChangeCounter (Header vc_seven)) + unat (ViewChangeCounter (Header vc_four)))
               mod length (m_DSCommittee node5)"
    by code_simp
  from C4_rotations_compose [OF d1 d2 d3 a1 a2 a3 k]
  have eq: "snd (ProcessVCBlock ?env node5 [3] 0) = snd (ProcessVCBlock ?env ?m1 [2] 0)" .
  have same: "ProcessVCBlock ?env ?m1 [2] 0 = ProcessVCBlock ?env node5 [3] 0"
    by (metis a2 a3 eq)
  have acc: "fst (ProcessVCBlock ?env node5 [3] 0) = Returned True"
    by (metis a3 fst_conv)
  from a1 same acc show ?thesis by blast
qed

text \<open>
  C5: for every proof that ProcessVCBlock rejects (decode failure, epoch
  mismatch, candidate-leader identity mismatch, bitmap size mismatch,
  insufficient quorum, key-aggregation failure or signature mismatch), the
  committee is left unchanged: whenever the call does not return true, the
  node's state after the call is the state before it, so no rotation step is
  applied on any rejection path.
\<close>

theorem C5_rejection_leaves_committee:
  assumes "ProcessVCBlock env m message off = (r, m')" and "r \<noteq> Returned True"
  shows "m' = m"
  using assms ProcessVCBlock_not_accepted_unchanged [of env m message off] by simp

theorem C5_rejection_leaves_committee_witness:
  "ProcessVCBlock (sample_env (sample_decode [([1], vc_three_signers)])) node5 [1] 0
     = (Returned False, node5)
   \<and> Returned False \<noteq> Returned True"
proof -
  have p: "ProcessVCBlock (sample_env (sample_decode [([1], vc_three_signers)])) node5 [1] 0
     = (Returned False, snd (ProcessVCBlock (sample_env (sample_decode [([1], vc_three_signers)])) node5 [1] 0))"
    by code_simp
  have r: "Returned False \<noteq> Returned True" by simp
  from C5_rejection_leaves_committee [OF p r] p r show ?thesis by simp
qed

text \<open>
  C6: for every committee of size N and every proof whose bitmap B2 has a length
  different from N, the co-signature verification returns false, whatever the
  signature, the quorum threshold and the other fields are; the processor
  then never accepts the proof and leaves the node's state as it was, and it
  returns false whenever the candidate lookup is in range (the committee is not
  empty and the counter is not the committee's size).
\<close>

theorem C6_b2_size_mismatch_rejected:
  assumes "length (B2 vc) \<noteq> length (m_DSCommittee m)"
  shows "VerifyVCBlockCoSignature env (m_DSCommittee m) vc = Returned False
    \<and> (GetNodeVCBlock env message off = Some vc \<longrightarrow>
         fst (ProcessVCBlock env m message off) \<noteq> Returned True
         \<and> snd (ProcessVCBlock env m message off) = m)
    \<and> (GetNodeVCBlock env message off = Some vc \<and> m_DSCommittee m \<noteq> []
         \<and> unat (ViewChangeCounter (Header vc)) \<noteq> length (m_DSCommittee m) \<longrightarrow>
         ProcessVCBlock env m message off = (Returned False, m))"
proof -
  have v: "VerifyVCBlockCoSignature env (m_DSCommittee m) vc = Returned False"
    using assms by (simp add: VerifyVCBlockCoSignature_def)
  have a: "fst (ProcessVCBlock env m message off) \<noteq> Returned True"
    if dec: "GetNodeVCBlock env message off = Some vc"
  proof
    assume "fst (ProcessVCBlock env m message off) = Returned True"
    then have "ProcessVCBlock env m message off
        = (Returned True, snd (ProcessVCBlock env m message off))"
      by (metis prod.collapse)
    then have "VerifyVCBlockCoSignature env (m_DSCommittee m) vc = Returned True"
      using ProcessVCBlock_accepts_iff [OF dec] by blast
    with v show False by simp
  qed
  have f: "ProcessVCBlock env m message off = (Returned False, m)"
    if dec: "GetNodeVCBlock env message off = Some vc" and ne: "m_DSCommittee m \<noteq> []"
      and k: "unat (ViewChangeCounter (Header vc)) \<noteq> length (m_DSCommittee m)"
  proof -
    let ?k = "unat (ViewChangeCounter (Header vc))"
    let ?n = "length (m_DSCommittee m)"
    have "resolve_candidate ?k ?n = Some (?k mod ?n) \<and> ?k mod ?n < ?n"
      using resolve_candidate_in_range [of ?k ?n "?k mod ?n"] ne k by simp
    then show ?thesis
      using dec v by (simp add: ProcessVCBlock_def checked_at_def)
  qed
  from v a f show ?thesis
    using ProcessVCBlock_not_accepted_unchanged [of env m message off] by blast
qed

theorem C6_b2_size_mismatch_rejected_witness:
  "length (B2 vc_short_b2) \<noteq> length (m_DSCommittee node5)
   \<and> VerifyVCBlockCoSignature (sample_env (sample_decode [([1], vc_short_b2)]))
        (m_DSCommittee node5) vc_short_b2 = Returned False
   \<and> ProcessVCBlock (sample_env (sample_decode [([1], vc_short_b2)])) node5 [1] 0
        = (Returned False, node5)"
proof -
  have h: "length (B2 vc_short_b2) \<noteq> length (m_DSCommittee node5)"
    by code_simp
  have d: "GetNodeVCBlock (sample_env (sample_decode [([1], vc_short_b2)])) [1] 0
             = Some vc_short_b2"
    by (simp add: sample_env_def sample_decode_def)
  have n: "m_DSCommittee node5 \<noteq> []"
    by (simp add: node5_def committee5_def)
  have k: "unat (ViewChangeCounter (Header vc_short_b2)) \<noteq> length (m_DSCommittee node5)"
    by code_simp
  from C6_b2_size_mismatch_rejected
         [OF h, of "sample_env (sample_decode [([1], vc_short_b2)])" "[1]" 0]
       h d n k
  show ?thesis by blast
qed

text \<open>
  C7: for every proof whose header epoch number differs from the node's local
  current epoch, ProcessVCBlock returns false and the committee is not rotated,
  whatever the co-signature is (the collaborators are arbitrary, so also when
  it verifies): the epoch check comes before the signature verification.
\<close>

theorem C7_epoch_mismatch_rejected:
  assumes "GetNodeVCBlock env message off = Some vc"
    and "ViewChangeEpochNo (Header vc) \<noteq> m_currentEpochNum m"
  shows "ProcessVCBlock env m message off = (Returned False, m)"
  using assms by (simp add: ProcessVCBlock_def)

theorem C7_epoch_mismatch_rejected_witness:
  "ViewChangeEpochNo (Header vc_epoch8) \<noteq> m_currentEpochNum node5
   \<and> VerifyVCBlockCoSignature (sample_env (sample_decode [([1], vc_epoch8)]))
        (m_DSCommittee node5) vc_epoch8 = Returned True
   \<and> ProcessVCBlock (sample_env (sample_decode [([1], vc_epoch8)])) node5 [1] 0
        = (Returned False, node5)"
proof -
  have d: "GetNodeVCBlock (sample_env (sample_decode [([1], vc_epoch8)])) [1] 0 = Some vc_epoch8"
    by (simp add: sample_env_def sample_decode_def)
  have e: "ViewChangeEpochNo (Header vc_epoch8) \<noteq> m_currentEpochNum node5"
    and v: "VerifyVCBlockCoSignature (sample_env (sample_decode [([1], vc_epoch8)]))
        (m_DSCommittee node5) vc_epoch8 = Returned True"
    by code_simp+
  from C7_epoch_mismatch_rejected [OF d e] e v show ?thesis by blast
qed

text \<open>
  C8: for every proof, where the serialized header has the fixed header size and
  the serialized CS1 the fixed signature size, the message against which CS2 is
  verified is the concatenation of the serialized header, the serialized CS1 and
  the packed bitmap B1, in this order: CS1 starts at the offset of the header
  size and the packed B1 at the offset of header size plus signature size. B1
  is packed as bits, not one byte for each boolean: it takes the length of B1
  divided by eight, rounded up, in bytes, and the boolean at position i is bit
  7 - i mod 8 of byte i div 8. The co-signature verification returns true
  exactly when B2 has the committee's length, the signer count is the
  threshold, and CS2 verifies over this concatenation under the aggregated key
  of the signers.
\<close>

theorem C8_canonical_message:
  assumes "length (SerializeHeader env (Header vc)) = VCBlockHeader_SIZE env"
    and "length (SerializeSignature env (CS1 vc)) = BLOCK_SIG_SIZE env"
  shows "cosig_message env vc =
           SerializeHeader env (Header vc) @ SerializeSignature env (CS1 vc)
             @ BitVector_bytes (B1 vc)
    \<and> take (VCBlockHeader_SIZE env) (cosig_message env vc) = SerializeHeader env (Header vc)
    \<and> take (BLOCK_SIG_SIZE env) (drop (VCBlockHeader_SIZE env) (cosig_message env vc))
          = SerializeSignature env (CS1 vc)
    \<and> drop (VCBlockHeader_SIZE env + BLOCK_SIG_SIZE env) (cosig_message env vc)
          = BitVector_bytes (B1 vc)
    \<and> length (BitVector_bytes (B1 vc)) = (length (B1 vc) + 7) div 8
    \<and> (\<forall>i < length (B1 vc).
          bit (BitVector_bytes (B1 vc) ! (i div 8)) (7 - i mod 8) \<longleftrightarrow> B1 vc ! i)
    \<and> VerifyVCBlockCoSignature env c vc =
        Returned (length c = length (B2 vc)
          \<and> length (filter id (B2 vc)) = NumForConsensus env (length (B2 vc))
          \<and> (\<exists>key. AggregatePubKeys env (signers c (B2 vc)) = Some key
                \<and> SchnorrVerify env
                     (SerializeHeader env (Header vc) @ SerializeSignature env (CS1 vc)
                        @ BitVector_bytes (B1 vc))
                     (CS2 vc) key))"
proof -
  let ?concat = "SerializeHeader env (Header vc) @ SerializeSignature env (CS1 vc)
             @ BitVector_bytes (B1 vc)"
  have msg: "cosig_message env vc = ?concat"
    using assms by (rule cosig_message_concat)
  have valid: "cosig_valid env c vc \<longleftrightarrow>
      (\<exists>key. AggregatePubKeys env (signers c (B2 vc)) = Some key
         \<and> SchnorrVerify env ?concat (CS2 vc) key)"
    by (auto simp: cosig_valid_def msg split: option.splits)
  have ver: "VerifyVCBlockCoSignature env c vc =
        Returned (length c = length (B2 vc)
          \<and> length (filter id (B2 vc)) = NumForConsensus env (length (B2 vc))
          \<and> (\<exists>key. AggregatePubKeys env (signers c (B2 vc)) = Some key
                \<and> SchnorrVerify env ?concat (CS2 vc) key))"
    by (simp only: VerifyVCBlockCoSignature_eq valid)
  have bits: "\<forall>i < length (B1 vc).
          bit (BitVector_bytes (B1 vc) ! (i div 8)) (7 - i mod 8) \<longleftrightarrow> B1 vc ! i"
    by (simp add: BitVector_bytes_bit)
  have offs: "take (VCBlockHeader_SIZE env) (cosig_message env vc) = SerializeHeader env (Header vc)"
    "take (BLOCK_SIG_SIZE env) (drop (VCBlockHeader_SIZE env) (cosig_message env vc))
          = SerializeSignature env (CS1 vc)"
    "drop (VCBlockHeader_SIZE env + BLOCK_SIG_SIZE env) (cosig_message env vc)
          = BitVector_bytes (B1 vc)"
    by (simp_all add: msg assms)
  from msg offs length_BitVector_bytes [of "B1 vc"] bits ver show ?thesis
    by (intro conjI)
qed

theorem C8_canonical_message_witness:
  "length (SerializeHeader sample_crypto (Header vc_two)) = VCBlockHeader_SIZE sample_crypto
   \<and> length (SerializeSignature sample_crypto (CS1 vc_two)) = BLOCK_SIG_SIZE sample_crypto
   \<and> SerializeHeader sample_crypto (Header vc_two) = [7, 0, 2, 3, 55]
   \<and> SerializeSignature sample_crypto (CS1 vc_two) = [9]
   \<and> BitVector_bytes (B1 vc_two) = [248]
   \<and> cosig_message sample_crypto vc_two = [7, 0, 2, 3, 55, 9, 248]
   \<and> bit (BitVector_bytes (B1 vc_two) ! 0) 3
   \<and> VerifyVCBlockCoSignature sample_crypto committee5 vc_two = Returned True
   \<and> length (SerializeHeader sample_crypto (Header vc_two_other_b1))
        = VCBlockHeader_SIZE sample_crypto
   \<and> length (SerializeSignature sample_crypto (CS1 vc_two_other_b1))
        = BLOCK_SIG_SIZE sample_crypto
   \<and> CS2 vc_two_other_b1 = CS2 vc_two
   \<and> cosig_message sample_crypto vc_two_other_b1 = [7, 0, 2, 3, 55, 9, 240]
   \<and> VerifyVCBlockCoSignature sample_crypto committee5 vc_two_other_b1 = Returned False"
proof -
  have h: "length (SerializeHeader sample_crypto (Header vc_two)) = VCBlockHeader_SIZE sample_crypto"
    and s: "length (SerializeSignature sample_crypto (CS1 vc_two)) = BLOCK_SIG_SIZE sample_crypto"
    by code_simp+
  have a: "SerializeHeader sample_crypto (Header vc_two) = [7, 0, 2, 3, 55]"
    and b: "SerializeSignature sample_crypto (CS1 vc_two) = [9]"
    and c: "BitVector_bytes (B1 vc_two) = [248]"
    by code_simp+
  have l: "length committee5 = length (B2 vc_two)"
    and q: "length (filter id (B2 vc_two)) = NumForConsensus sample_crypto (length (B2 vc_two))"
    and agg: "AggregatePubKeys sample_crypto (signers committee5 (B2 vc_two)) = Some 10"
    and sv: "SchnorrVerify sample_crypto [7, 0, 2, 3, 55, 9, 248] (CS2 vc_two) 10"
    and i: "4 < length (B1 vc_two)" "B1 vc_two ! 4"
    by code_simp+
  note t = C8_canonical_message [OF h s, of committee5]
  from t have m: "cosig_message sample_crypto vc_two =
       SerializeHeader sample_crypto (Header vc_two) @ SerializeSignature sample_crypto (CS1 vc_two)
         @ BitVector_bytes (B1 vc_two)"
    by blast
  with a b c have m1: "cosig_message sample_crypto vc_two = [7, 0, 2, 3, 55, 9, 248]"
    by simp
  from t have "\<forall>i < length (B1 vc_two).
      bit (BitVector_bytes (B1 vc_two) ! (i div 8)) (7 - i mod 8) \<longleftrightarrow> B1 vc_two ! i"
    by blast
  with i have "bit (BitVector_bytes (B1 vc_two) ! (4 div 8)) (7 - 4 mod 8)"
    by blast
  then have b1: "bit (BitVector_bytes (B1 vc_two) ! 0) 3" by simp
  from t have "VerifyVCBlockCoSignature sample_crypto committee5 vc_two =
        Returned (length committee5 = length (B2 vc_two)
          \<and> length (filter id (B2 vc_two)) = NumForConsensus sample_crypto (length (B2 vc_two))
          \<and> (\<exists>key. AggregatePubKeys sample_crypto (signers committee5 (B2 vc_two)) = Some key
                \<and> SchnorrVerify sample_crypto
                     (SerializeHeader sample_crypto (Header vc_two)
                        @ SerializeSignature sample_crypto (CS1 vc_two)
                        @ BitVector_bytes (B1 vc_two))
                     (CS2 vc_two) key))"
    by blast
  with l q agg sv have v1: "VerifyVCBlockCoSignature sample_crypto committee5 vc_two = Returned True"
    by (simp add: a b c)
  have h': "length (SerializeHeader sample_crypto (Header vc_two_other_b1))
              = VCBlockHeader_SIZE sample_crypto"
    and s': "length (SerializeSignature sample_crypto (CS1 vc_two_other_b1))
              = BLOCK_SIG_SIZE sample_crypto"
    by code_simp+
  have a': "SerializeHeader sample_crypto (Header vc_two_other_b1) = [7, 0, 2, 3, 55]"
    and b': "SerializeSignature sample_crypto (CS1 vc_two_other_b1) = [9]"
    and c': "BitVector_bytes (B1 vc_two_other_b1) = [240]"
    and same: "CS2 vc_two_other_b1 = CS2 vc_two"
    and agg': "AggregatePubKeys sample_crypto (signers committee5 (B2 vc_two_other_b1)) = Some 10"
    and nsv: "\<not> SchnorrVerify sample_crypto [7, 0, 2, 3, 55, 9, 240] (CS2 vc_two_other_b1) 10"
    by code_simp+
  note t' = C8_canonical_message [OF h' s', of committee5]
  from t' have "cosig_message sample_crypto vc_two_other_b1 =
       SerializeHeader sample_crypto (Header vc_two_other_b1)
         @ SerializeSignature sample_crypto (CS1 vc_two_other_b1)
         @ BitVector_bytes (B1 vc_two_other_b1)"
    by blast
  with a' b' c' have m2: "cosig_message sample_crypto vc_two_other_b1 = [7, 0, 2, 3, 55, 9, 240]"
    by simp
  from t' have "VerifyVCBlockCoSignature sample_crypto committee5 vc_two_other_b1 =
        Returned (length committee5 = length (B2 vc_two_other_b1)
          \<and> length (filter id (B2 vc_two_other_b1))
              = NumForConsensus sample_crypto (length (B2 vc_two_other_b1))
          \<and> (\<exists>key. AggregatePubKeys sample_crypto (signers committee5 (B2 vc_two_other_b1))
                     = Some key
                \<and> SchnorrVerify sample_crypto
                     (SerializeHeader sample_crypto (Header vc_two_other_b1)
                        @ SerializeSignature sample_crypto (CS1 vc_two_other_b1)
                        @ BitVector_bytes (B1 vc_two_other_b1))
                     (CS2 vc_two_other_b1) key))"
    by blast
  with agg' nsv
  have v2: "VerifyVCBlockCoSignature sample_crypto committee5 vc_two_other_b1 = Returned False"
    by (simp add: a' b' c')
  from h s a b c m1 b1 v1 h' s' same m2 v2 show ?thesis
    by (intro conjI)
qed

text \<open>
  C9, as stated, fails on the code: the block with an empty B1 for the committee
  [A, B, C, D, E] is accepted by the co-signature verification and by
  ProcessVCBlock, which rotates the committee.
\<close>

theorem C9_counterexample:
  "length (B1 vc_empty_b1) \<noteq> length (m_DSCommittee node5)
   \<and> VerifyVCBlockCoSignature sample_crypto (m_DSCommittee node5) vc_empty_b1 = Returned True
   \<and> ProcessVCBlock (sample_env (sample_decode [([1], vc_empty_b1)])) node5 [1] 0
     = (Returned True,
        node5\<lparr>m_DSCommittee := [(3, 103), (4, 104), (5, 105), (1, 101), (2, 102)]\<rparr>)"
  by code_simp

text \<open>
  C9 (amended): for every committee of size N and every proof whose bitmap B1
  has a length different from N, the length of B1 is not checked and is no
  reason for rejection: the co-signature verification returns true exactly
  when B2 has length N, the number of set bits of B2 is NumForConsensus(N), the
  signers' keys aggregate and CS2 verifies over the message (which holds B1
  packed); only a B2 length mismatch is a hard rejection.
\<close>

theorem C9_b1_length_not_checked:
  assumes "length (B1 vc) \<noteq> length c"
  shows "VerifyVCBlockCoSignature env c vc =
     Returned (length (B2 vc) = length c
       \<and> length (filter id (B2 vc)) = NumForConsensus env (length c)
       \<and> cosig_valid env c vc)"
  by (auto simp: VerifyVCBlockCoSignature_eq)

theorem C9_b1_length_not_checked_witness:
  "length (B1 vc_empty_b1) \<noteq> length committee5
   \<and> length (B2 vc_empty_b1) = length committee5
   \<and> length (filter id (B2 vc_empty_b1)) = NumForConsensus sample_crypto (length committee5)
   \<and> cosig_valid sample_crypto committee5 vc_empty_b1
   \<and> VerifyVCBlockCoSignature sample_crypto committee5 vc_empty_b1 = Returned True"
proof -
  have h: "length (B1 vc_empty_b1) \<noteq> length committee5"
    and l: "length (B2 vc_empty_b1) = length committee5"
    and q: "length (filter id (B2 vc_empty_b1)) = NumForConsensus sample_crypto (length committee5)"
    and v: "cosig_valid sample_crypto committee5 vc_empty_b1"
    by code_simp+
  from C9_b1_length_not_checked [OF h, of sample_crypto] l q v
  have "VerifyVCBlockCoSignature sample_crypto committee5 vc_empty_b1 = Returned True"
    by simp
  with h l q v show ?thesis by blast
qed

text \<open>
  C10: ProcessVCBlock does not validate the view-change state tag or the
  timestamp of the header. Two decoded proofs that differ only in these two
  fields and in CS2, with co-signatures of the same validity over their own
  messages (in particular, each valid for its own message), get the same
  outcome and the same resulting state: the two fields bear on the result
  only through the message that CS2 is verified against.
\<close>

theorem C10_state_and_timestamp_unchecked:
  assumes "GetNodeVCBlock env message1 off1 = Some vc1"
    and "GetNodeVCBlock env message2 off2 = Some vc2"
    and "Header vc2 = (Header vc1)\<lparr>ViewChangeState := st, TimeStamp := ts\<rparr>"
    and "CS1 vc2 = CS1 vc1" and "B1 vc2 = B1 vc1" and "B2 vc2 = B2 vc1"
    and "cosig_valid env (m_DSCommittee m) vc2 = cosig_valid env (m_DSCommittee m) vc1"
  shows "ProcessVCBlock env m message2 off2 = ProcessVCBlock env m message1 off1"
proof -
  have v: "VerifyVCBlockCoSignature env (m_DSCommittee m) vc2
         = VerifyVCBlockCoSignature env (m_DSCommittee m) vc1"
    by (simp add: VerifyVCBlockCoSignature_eq assms(6,7))
  have h: "ViewChangeEpochNo (Header vc2) = ViewChangeEpochNo (Header vc1)"
    "ViewChangeCounter (Header vc2) = ViewChangeCounter (Header vc1)"
    "CandidateLeaderNetworkInfo (Header vc2) = CandidateLeaderNetworkInfo (Header vc1)"
    "CandidateLeaderPubKey (Header vc2) = CandidateLeaderPubKey (Header vc1)"
    by (simp_all add: assms(3))
  show ?thesis
    unfolding ProcessVCBlock_def assms(1,2) option.case v h by (rule refl)
qed

theorem C10_state_and_timestamp_unchecked_witness:
  "ViewChangeState (Header vc_two_late) \<noteq> ViewChangeState (Header vc_two)
   \<and> TimeStamp (Header vc_two_late) \<noteq> TimeStamp (Header vc_two)
   \<and> cosig_valid sample_crypto (m_DSCommittee node5) vc_two
   \<and> cosig_valid sample_crypto (m_DSCommittee node5) vc_two_late
   \<and> ProcessVCBlock (sample_env (sample_decode [([1], vc_two), ([2], vc_two_late)])) node5 [2] 0
     = ProcessVCBlock (sample_env (sample_decode [([1], vc_two), ([2], vc_two_late)])) node5 [1] 0
   \<and> ProcessVCBlock (sample_env (sample_decode [([1], vc_two), ([2], vc_two_late)])) node5 [1] 0
     = (Returned True,
        node5\<lparr>m_DSCommittee := [(3, 103), (4, 104), (5, 105), (1, 101), (2, 102)]\<rparr>)"
proof -
  let ?env = "sample_env (sample_decode [([1], vc_two), ([2], vc_two_late)])"
  have d1: "GetNodeVCBlock ?env [1] 0 = Some vc_two"
    and d2: "GetNodeVCBlock ?env [2] 0 = Some vc_two_late"
    by (simp_all add: sample_env_def sample_decode_def)
  have hd: "Header vc_two_late = (Header vc_two)\<lparr>ViewChangeState := 1, TimeStamp := 99\<rparr>"
    and c1: "CS1 vc_two_late = CS1 vc_two"
    and b1: "B1 vc_two_late = B1 vc_two"
    and b2: "B2 vc_two_late = B2 vc_two"
    by code_simp+
  have v: "cosig_valid ?env (m_DSCommittee node5) vc_two_late
         = cosig_valid ?env (m_DSCommittee node5) vc_two"
    by code_simp
  have st: "ViewChangeState (Header vc_two_late) \<noteq> ViewChangeState (Header vc_two)"
    and ts: "TimeStamp (Header vc_two_late) \<noteq> TimeStamp (Header vc_two)"
    and v1: "cosig_valid sample_crypto (m_DSCommittee node5) vc_two"
    and v2: "cosig_valid sample_crypto (m_DSCommittee node5) vc_two_late"
    by code_simp+
  have acc: "ProcessVCBlock ?env node5 [1] 0
     = (Returned True,
        node5\<lparr>m_DSCommittee := [(3, 103), (4, 104), (5, 105), (1, 101), (2, 102)]\<rparr>)"
    by code_simp
  from C10_state_and_timestamp_unchecked [OF d1 d2 hd c1 b1 b2 v]
  have "ProcessVCBlock ?env node5 [2] 0 = ProcessVCBlock ?env node5 [1] 0" .
  with st ts v1 v2 acc show ?thesis by blast
qed

end
